theory Spec2Isabelle
  imports Main
begin

section \<open>The custom error pages handler (images/custom-error-pages/main.go)\<close>

text \<open>
  A shallow embedding of \<^verbatim>\<open>errorHandler\<close> and \<^verbatim>\<open>modifyOutput\<close>. Go strings are
  byte strings (\<open>string\<close>), Go's \<^verbatim>\<open>int\<close> is an \<open>int\<close> that \<^verbatim>\<open>strconv.Atoi\<close> keeps inside
  the 64-bit range (the image is built for amd64), a \<^verbatim>\<open>(value, error)\<close> result is a sum
  with the error on the left, and a \<^verbatim>\<open>map[string]string\<close> literal is an association list.
  What the handler reads from outside (environment variables, the MIME table, the file
  system, the clock, the order in which \<^verbatim>\<open>range\<close> visits a map) is a field of the record
  \<open>world\<close>; what it does to the \<^verbatim>\<open>http.ResponseWriter\<close> and to the metric collectors is
  returned as a value; a panic ends the call with the error on the left. The
  \<^verbatim>\<open>log.Printf\<close> calls and the deferred \<^verbatim>\<open>f.Close()\<close> leave no trace in that value and are
  left out.
\<close>

subsection \<open>Errors\<close>

datatype error =
    ErrSyntax          \<comment> \<open>strconv.ErrSyntax\<close>
  | ErrRange           \<comment> \<open>strconv.ErrRange\<close>
  | ErrMediaType       \<comment> \<open>an error of mime.ParseMediaType\<close>
  | ErrOpen            \<comment> \<open>an error of os.Open\<close>
  | IndexOutOfRange    \<comment> \<open>the runtime panic of an index expression\<close>
  | InvalidWriteHeaderCode int
      \<comment> \<open>the panic of net/http's checkWriteHeaderCode, with the code it was given\<close>

subsection \<open>Constants of main.go (lines 33-64)\<close>

definition FormatHeader :: string where "FormatHeader = ''X-Format''"
definition CodeHeader :: string where "CodeHeader = ''X-Code''"
definition ContentType :: string where "ContentType = ''Content-Type''"
definition OriginalURI :: string where "OriginalURI = ''X-Original-URI''"
definition Namespace :: string where "Namespace = ''X-Namespace''"
definition IngressName :: string where "IngressName = ''X-Ingress-Name''"
definition ServiceName :: string where "ServiceName = ''X-Service-Name''"
definition ServicePort :: string where "ServicePort = ''X-Service-Port''"
definition RequestId :: string where "RequestId = ''X-Request-ID''"

subsection \<open>The functions of package strings and strconv that the handler calls\<close>

text \<open>\<^verbatim>\<open>strings.HasPrefix(s, prefix)\<close>: \<^verbatim>\<open>len(s) >= len(prefix) && s[:len(prefix)] == prefix\<close>.\<close>

definition HasPrefix :: "string \<Rightarrow> string \<Rightarrow> bool" where
  "HasPrefix s pre = (length pre \<le> length s \<and> take (length pre) s = pre)"

text \<open>\<^verbatim>\<open>strings.Contains(s, substr)\<close>: \<^verbatim>\<open>substr\<close> occurs in \<^verbatim>\<open>s\<close> at some offset.\<close>

fun Contains :: "string \<Rightarrow> string \<Rightarrow> bool" where
  "Contains [] substr = (substr = [])"
| "Contains (c # s) substr = (HasPrefix (c # s) substr \<or> Contains s substr)"

text \<open>
  \<^verbatim>\<open>strconv.Itoa\<close>: the decimal digits of the absolute value, most significant first,
  after a minus sign for a negative number.
\<close>

definition digit :: "nat \<Rightarrow> char" where
  "digit d = ''0123456789'' ! d"

fun digits :: "nat \<Rightarrow> string" where
  "digits n = (if n < 10 then [digit n] else digits (n div 10) @ [digit (n mod 10)])"

declare digits.simps [simp del]

definition Itoa :: "int \<Rightarrow> string" where
  "Itoa i = (if i < 0 then CHR ''-'' # digits (nat (- i)) else digits (nat i))"

text \<open>
  \<^verbatim>\<open>strconv.Atoi\<close>: an optional sign, then at least one decimal digit and nothing else
  (\<^verbatim>\<open>ErrSyntax\<close> otherwise); a value outside the 64-bit range is \<^verbatim>\<open>ErrRange\<close>.
\<close>

definition isDigit :: "char \<Rightarrow> bool" where
  "isDigit c = (c \<in> set ''0123456789'')"

definition digitVal :: "char \<Rightarrow> nat" where
  "digitVal c = of_char c - 48"

definition decimal :: "string \<Rightarrow> int" where
  "decimal ds = foldl (\<lambda>a c. 10 * a + int (digitVal c)) 0 ds"

definition Atoi :: "string \<Rightarrow> error + int" where
  "Atoi s =
     (let (neg, ds) =
            (case s of
               [] \<Rightarrow> (False, s)
             | c # t \<Rightarrow>
                 if c = CHR ''-'' then (True, t)
                 else if c = CHR ''+'' then (False, t)
                 else (False, s))
      in if ds = [] \<or> \<not> list_all isDigit ds then Inl ErrSyntax
         else
           let v = (if neg then - decimal ds else decimal ds)
           in if v < - (2 ^ 63) \<or> 2 ^ 63 - 1 < v then Inl ErrRange else Inr v)"

subsection \<open>Requests, the response writer, the outside world\<close>

text \<open>
  An \<^verbatim>\<open>http.Header\<close> under its canonical keys; \<^verbatim>\<open>Get\<close> of an absent key is the empty
  string. The header names of main.go are written as the source writes them: all are
  canonical but \<^verbatim>\<open>X-Request-ID\<close>, which net/http stores as \<^verbatim>\<open>X-Request-Id\<close> and which the
  handler only echoes under \<^verbatim>\<open>DEBUG\<close>.
\<close>

type_synonym header = "string \<rightharpoonup> string"

definition Get :: "header \<Rightarrow> string \<Rightarrow> string" where
  "Get h k = (case h k of None \<Rightarrow> [] | Some v \<Rightarrow> v)"

record request =
  Header :: header
  ProtoMajor :: int
  ProtoMinor :: int

text \<open>
  The \<^verbatim>\<open>http.ResponseWriter\<close> of net/http's server: the header map, the informational
  (1xx) status lines sent so far, the status of the response (\<open>None\<close> while the header
  is not written; the server writes it with status 200 after a handler that returned
  without writing it) and the bytes of the body written so far.
\<close>

record ResponseWriter =
  wHeader :: header
  wInformational :: "int list"
  wStatus :: "int option"
  wBody :: string

definition newWriter :: ResponseWriter where
  "newWriter = \<lparr>wHeader = Map.empty, wInformational = [], wStatus = None, wBody = []\<rparr>"

definition Header_Set :: "ResponseWriter \<Rightarrow> string \<Rightarrow> string \<Rightarrow> ResponseWriter" where
  "Header_Set w k v = w\<lparr>wHeader := (wHeader w)(k \<mapsto> v)\<rparr>"

text \<open>
  \<^verbatim>\<open>WriteHeader\<close> of net/http's response (Go 1.19 and later). Once the header is written,
  a further call is logged and ignored. Otherwise \<^verbatim>\<open>checkWriteHeaderCode\<close> panics for a
  code below 100 or above 999, which ends the handler; a 1xx code other than 101 is sent
  at once as an informational status line and the header stays unwritten; any other code
  becomes the status of the response.
\<close>

definition WriteHeader :: "int \<Rightarrow> ResponseWriter \<Rightarrow> error + ResponseWriter" where
  "WriteHeader code w =
     (if wStatus w \<noteq> None then Inr w
      else if code < 100 \<or> 999 < code then Inl (InvalidWriteHeaderCode code)
      else if 100 \<le> code \<and> code \<le> 199 \<and> code \<noteq> 101 then
        Inr (w\<lparr>wInformational := wInformational w @ [code]\<rparr>)
      else Inr (w\<lparr>wStatus := Some code\<rparr>))"

text \<open>\<^verbatim>\<open>bodyAllowedForStatus\<close> of net/http: no body for a 1xx, 204 or 304 response.\<close>

definition bodyAllowedForStatus :: "int \<Rightarrow> bool" where
  "bodyAllowedForStatus status =
     (if 100 \<le> status \<and> status \<le> 199 then False
      else if status = 204 then False
      else if status = 304 then False
      else True)"

text \<open>
  \<^verbatim>\<open>Write\<close> of net/http's response: an unwritten header is written with status 200
  first; the data is dropped (\<^verbatim>\<open>ErrBodyNotAllowed\<close>, which the handler ignores) when the
  status allows no body.
\<close>

definition Write :: "ResponseWriter \<Rightarrow> string \<Rightarrow> ResponseWriter" where
  "Write w data =
     (let status = (case wStatus w of None \<Rightarrow> 200 | Some c \<Rightarrow> c);
          w = w\<lparr>wStatus := Some status\<rparr>
      in if data = [] then w
         else if \<not> bodyAllowedForStatus status then w
         else w\<lparr>wBody := wBody w @ data\<rparr>)"

text \<open>
  \<^verbatim>\<open>io.Copy(w, src)\<close> hands all of \<^verbatim>\<open>src\<close> to \<^verbatim>\<open>Write\<close>; an empty source never
  reaches it. The handler ignores the result of \<^verbatim>\<open>io.Copy\<close>.
\<close>

definition Copy :: "ResponseWriter \<Rightarrow> string \<Rightarrow> ResponseWriter" where
  "Copy w src = (if src = [] then w else Write w src)"

text \<open>
  \<^verbatim>\<open>http.NotFound(w, r)\<close> is \<^verbatim>\<open>http.Error(w, "404 page not found", 404)\<close>: it deletes
  \<^verbatim>\<open>Content-Length\<close>, sets a plain-text content type, writes the header with status 404
  and prints the message followed by a newline.
\<close>

definition NotFound :: "ResponseWriter \<Rightarrow> error + ResponseWriter" where
  "NotFound w =
     (let w = w\<lparr>wHeader := (wHeader w)(''Content-Length'' := None)\<rparr>;
          w = Header_Set w ''Content-Type'' ''text/plain; charset=utf-8'';
          w = Header_Set w ''X-Content-Type-Options'' ''nosniff''
      in case WriteHeader 404 w of
           Inl e \<Rightarrow> Inl e
         | Inr w \<Rightarrow> Inr (Write w (''404 page not found'' @ [CHR 0x0A])))"

type_synonym config = "(string \<times> string) list"

text \<open>Indexing a \<^verbatim>\<open>map[string]string\<close>: the empty string for an absent key.\<close>

definition index :: "config \<Rightarrow> string \<Rightarrow> string" where
  "index m k = (case map_of m k of None \<Rightarrow> [] | Some v \<Rightarrow> v)"

text \<open>
  \<^item> \<open>Getenv\<close>: \<^verbatim>\<open>os.Getenv\<close>, the empty string for an unset variable;
  \<^item> \<open>ExtensionsByType\<close>: \<^verbatim>\<open>mime.ExtensionsByType\<close>, whose table is the Go runtime's
    built-in one extended by the host's mime.types files;
  \<^item> \<open>Open\<close>: \<^verbatim>\<open>os.Open\<close> of a path, giving the bytes that \<^verbatim>\<open>io.Copy\<close> then reads;
  \<^item> \<open>rangeOrder\<close>: the order in which \<^verbatim>\<open>range\<close> visits the entries of the map
    \<^verbatim>\<open>refreshEndpoints\<close> in this run (Go leaves the iteration order of a map unspecified);
  \<^item> \<open>elapsed\<close>: \<^verbatim>\<open>time.Now().Sub(start)\<close> at line 203, in nanoseconds.
\<close>

record world =
  Getenv :: "string \<Rightarrow> string"
  ExtensionsByType :: "string \<Rightarrow> error + string list"
  Open :: "string \<Rightarrow> error + string"
  rangeOrder :: "(string \<times> config) list"
  elapsed :: int

text \<open>
  Modelled from the spec: the collectors \<^verbatim>\<open>requestCount\<close> and \<^verbatim>\<open>requestDuration\<close> are
  declared outside main.go; the spec has them record "one count increment and one
  duration observation keyed by protocol version". Each call on a collector is one event.
\<close>

datatype metric = Inc string | Observe string int

text \<open>
  What one call of the handler did: the response writer at the end, the metric events in
  order, and the paths given to \<^verbatim>\<open>os.Open\<close> in order.
\<close>

record result =
  writer :: ResponseWriter
  metrics :: "metric list"
  opened :: "string list"

subsection \<open>modifyOutput (lines 83-106)\<close>

text \<open>The body of the loop over \<^verbatim>\<open>endpoints\<close> (lines 96-103), on the three variables it assigns.\<close>

definition endpointStep ::
  "world \<Rightarrow> string \<Rightarrow> string \<Rightarrow> string \<times> config \<Rightarrow> string \<times> string option \<times> int
     \<Rightarrow> string \<times> string option \<times> int" where
  "endpointStep env path uri ec st =
     (case ec of (endpoint, conf) \<Rightarrow>
      case st of (filename, content, customCode) \<Rightarrow>
        if Getenv env (index conf ''env'') \<noteq> [] then
          (filename, Some (Getenv env (index conf ''env'')), customCode)
        else if Contains uri endpoint then
          (path @ ''/'' @ index conf ''file'', content, 200)
        else (filename, content, customCode))"

text \<open>
  \<open>endpoints\<close> is the map's entries in the order \<^verbatim>\<open>range\<close> visits them. The parameter
  \<^verbatim>\<open>returnCode\<close> is not used by the source, and \<^verbatim>\<open>customCode\<close> starts at the zero value
  of \<^verbatim>\<open>int\<close>. The headers have distinct keys, so the order of the first loop does not
  show in the result.
\<close>

definition modifyOutput ::
  "world \<Rightarrow> ResponseWriter \<Rightarrow> string \<Rightarrow> string \<Rightarrow> string \<Rightarrow> string \<Rightarrow> (string \<times> string) list
     \<Rightarrow> (string \<times> config) list \<Rightarrow> int \<Rightarrow> int
     \<Rightarrow> ResponseWriter \<times> string \<times> string option \<times> int" where
  "modifyOutput env w ext path service uri headers endpoints ingressCode returnCode =
     (let w' = fold (\<lambda>hv w. Header_Set w (fst hv) (snd hv)) headers w;
          filename = path @ ''/'' @ Itoa ingressCode @ ext
      in (w', fold (endpointStep env path uri) endpoints (filename, None, 0)))"

subsection \<open>errorHandler (lines 108-211)\<close>

definition refreshHeaders :: "request \<Rightarrow> (string \<times> string) list" where
  "refreshHeaders r =
     [(''Content-Type'', ''application/vnd.api+json; charset=utf-8''),
      (''Access-Control-Allow-Origin'', Get (Header r) ''Origin''),
      (''Access-Control-Allow-Credentials'', ''true'')]"

definition refreshEndpoints :: "(string \<times> config) list" where
  "refreshEndpoints =
     [(''/version-checks/fresha'',
         [(''file'', ''refresh-fresha.json''), (''env'', ''REFRESH_FRESHA_MAINTENANCE'')]),
      (''/version-checks/shedul'',
         [(''file'', ''refresh-shedul.json''), (''env'', ''REFRESH_SHEDUL_MAINTENANCE'')])]"

text \<open>
  A run is possible when \<open>rangeOrder\<close> visits every entry of \<^verbatim>\<open>refreshEndpoints\<close> once.
\<close>

definition rangeOrders :: "(string \<times> config) list set" where
  "rangeOrders = {refreshEndpoints, rev refreshEndpoints}"

text \<open>Lines 129-139: with \<^verbatim>\<open>DEBUG\<close> set, the request's headers are echoed.\<close>

definition debugEcho :: "world \<Rightarrow> request \<Rightarrow> ResponseWriter \<Rightarrow> ResponseWriter" where
  "debugEcho env r w =
     (if Getenv env ''DEBUG'' \<noteq> [] then
        fold (\<lambda>k w. Header_Set w k (Get (Header r) k))
          [FormatHeader, CodeHeader, ContentType, OriginalURI, Namespace, IngressName,
           ServiceName, ServicePort, RequestId] w
      else w)"

text \<open>
  Lines 141-155: the format and the extension, before the leading dot is added. \<open>ext\<close>
  starts as \<open>''html''\<close> (line 127).
\<close>

definition resolveFormat :: "world \<Rightarrow> request \<Rightarrow> string \<times> string" where
  "resolveFormat env r =
     (let ext = ''html'';
          format = Get (Header r) FormatHeader;
          format = (if format = [] then ''text/html'' else format)
      in case ExtensionsByType env format of
           Inl err \<Rightarrow> (''text/html'', ext)
         | Inr cext \<Rightarrow> if length cext = 0 then (format, ext) else (format, cext ! 0))"

text \<open>Lines 158-163.\<close>

definition resolveCode :: "request \<Rightarrow> int" where
  "resolveCode r =
     (case Atoi (Get (Header r) CodeHeader) of Inl err \<Rightarrow> 404 | Inr code \<Rightarrow> code)"

text \<open>Lines 165-167.\<close>

definition normalizeExt :: "string \<Rightarrow> string" where
  "normalizeExt ext = (if \<not> HasPrefix ext ''.'' then ''.'' @ ext else ext)"

text \<open>
  Lines 129-167 together: the writer after line 156, the format, the extension with its
  leading dot, and the code.
\<close>

definition classify :: "world \<Rightarrow> request \<Rightarrow> ResponseWriter \<times> string \<times> string \<times> int" where
  "classify env r =
     (let w = debugEcho env r newWriter;
          (format, ext) = resolveFormat env r;
          w = Header_Set w ContentType format;
          code = resolveCode r;
          ext = normalizeExt ext
      in (w, format, ext, code))"

text \<open>
  Lines 164 and 169-175: the file to open, the literal content (\<open>None\<close> for the nil
  reader) and \<^verbatim>\<open>customCode\<close>.
\<close>

definition resolve ::
  "string \<Rightarrow> world \<Rightarrow> request \<Rightarrow> ResponseWriter \<Rightarrow> string \<Rightarrow> int
     \<Rightarrow> ResponseWriter \<times> string \<times> string option \<times> int" where
  "resolve path env r w ext code =
     (let customCode = code;
          uri = Get (Header r) OriginalURI;
          serviceName = Get (Header r) ServiceName
      in if serviceName = ''refresh'' then
           modifyOutput env w ext path serviceName uri (refreshHeaders r) (rangeOrder env)
             code 200
         else (w, path @ ''/'' @ Itoa code @ ext, None, customCode))"

text \<open>Lines 203-209.\<close>

definition observe :: "world \<Rightarrow> request \<Rightarrow> metric list" where
  "observe env r =
     (let duration = elapsed env;
          proto = Itoa (ProtoMajor r);
          proto = proto @ ''.'' @ Itoa (ProtoMinor r)
      in [Inc proto, Observe proto duration])"

text \<open>
  Lines 176-209. The two \<^verbatim>\<open>return\<close> statements of the fallback branch (lines 189 and
  195) leave the handler before line 203. \<^verbatim>\<open>scode[0]\<close> panics on an empty string, and a
  panic of \<^verbatim>\<open>WriteHeader\<close> (lines 177, 193, 199) ends the handler before \<^verbatim>\<open>io.Copy\<close> and
  before the metrics.
\<close>

definition emit ::
  "string \<Rightarrow> world \<Rightarrow> request \<Rightarrow> ResponseWriter \<Rightarrow> string \<Rightarrow> int
     \<Rightarrow> string \<Rightarrow> string option \<Rightarrow> int \<Rightarrow> error + result" where
  "emit path env r w ext code filename content customCode =
     (case content of
        Some v \<Rightarrow>
          (case WriteHeader customCode w of
             Inl e \<Rightarrow> Inl e
           | Inr w \<Rightarrow>
               Inr \<lparr>writer = Copy w v, metrics = observe env r, opened = []\<rparr>)
      | None \<Rightarrow>
          (case Open env filename of
             Inr f \<Rightarrow>
               (case WriteHeader customCode w of
                  Inl e \<Rightarrow> Inl e
                | Inr w \<Rightarrow>
                    Inr \<lparr>writer = Copy w f, metrics = observe env r, opened = [filename]\<rparr>)
           | Inl err \<Rightarrow>
               (case Itoa code of
                  [] \<Rightarrow> Inl IndexOutOfRange
                | c # rest \<Rightarrow>
                    let filename' = path @ ''/'' @ [c] @ ''xx'' @ ext
                    in case Open env filename' of
                         Inl err \<Rightarrow>
                           (case NotFound w of
                              Inl e \<Rightarrow> Inl e
                            | Inr w \<Rightarrow>
                                Inr \<lparr>writer = w, metrics = [],
                                     opened = [filename, filename']\<rparr>)
                       | Inr f \<Rightarrow>
                           (case WriteHeader code w of
                              Inl e \<Rightarrow> Inl e
                            | Inr w \<Rightarrow>
                                Inr \<lparr>writer = Copy w f, metrics = [],
                                     opened = [filename, filename']\<rparr>))))"

definition errorHandler :: "string \<Rightarrow> world \<Rightarrow> request \<Rightarrow> error + result" where
  "errorHandler path env r =
     (case classify env r of (w, format, ext, code) \<Rightarrow>
      case resolve path env r w ext code of (w, filename, content, customCode) \<Rightarrow>
        emit path env r w ext code filename content customCode)"

subsection \<open>What a call shows, and example worlds\<close>

text \<open>
  The status, the body and the \<^verbatim>\<open>Content-Type\<close> header of the response, the metric
  events and the files opened.
\<close>

definition summary ::
  "error + result \<Rightarrow> error + int option \<times> string \<times> string option \<times> metric list \<times> string list" where
  "summary x =
     (case x of
        Inl e \<Rightarrow> Inl e
      | Inr res \<Rightarrow>
          Inr (wStatus (writer res), wBody (writer res), wHeader (writer res) ContentType,
               metrics res, opened res))"

text \<open>
  An example of \<^verbatim>\<open>mime.ExtensionsByType\<close>: the entries of Go's built-in table for
  \<^verbatim>\<open>text/html\<close> (\<^verbatim>\<open>.htm\<close> and \<^verbatim>\<open>.html\<close>, returned sorted) and \<^verbatim>\<open>application/json\<close>; a media
  type with nothing after the slash does not parse.
\<close>

definition builtinMime :: "string \<Rightarrow> error + string list" where
  "builtinMime t =
     (if t = ''text/html'' then Inr [''.htm'', ''.html'']
      else if t = ''application/json'' then Inr [''.json'']
      else if t = ''text/'' then Inl ErrMediaType
      else Inr [])"

text \<open>
  A world from the environment variables that are set, the files that exist and the
  order in which the routes are visited.
\<close>

definition mkWorld ::
  "(string \<times> string) list \<Rightarrow> (string \<times> string) list \<Rightarrow> (string \<times> config) list \<Rightarrow> world" where
  "mkWorld vars files order =
     \<lparr>Getenv = index vars,
      ExtensionsByType = builtinMime,
      Open = (\<lambda>p. case map_of files p of None \<Rightarrow> Inl ErrOpen | Some bytes \<Rightarrow> Inr bytes),
      rangeOrder = order,
      elapsed = 1500\<rparr>"

definition mkRequest :: "(string \<times> string) list \<Rightarrow> request" where
  "mkRequest hs = \<lparr>Header = map_of hs, ProtoMajor = 1, ProtoMinor = 1\<rparr>"

text \<open>A route whose environment variable is set, as line 97 tests it.\<close>

definition envSet :: "world \<Rightarrow> string \<times> config \<Rightarrow> bool" where
  "envSet env ec = (Getenv env (index (snd ec) ''env'') \<noteq> [])"

text \<open>Both maintenance variables set, to different values.\<close>

definition bothDown :: "(string \<times> string) list" where
  "bothDown =
     [(''REFRESH_FRESHA_MAINTENANCE'', ''down''), (''REFRESH_SHEDUL_MAINTENANCE'', ''closed'')]"

section \<open>Properties\<close>

subsection \<open>Auxiliary facts\<close>

lemma digits_nonempty: "digits n \<noteq> []"
  by (subst digits.simps) simp

lemma Itoa_nonempty: "Itoa i \<noteq> []"
  by (simp add: Itoa_def digits_nonempty)

lemma Itoa_zero: "Itoa 0 = ''0''"
  by (simp add: Itoa_def digits.simps [of 0] digit_def)

lemma Itoa_negative: "i < 0 \<Longrightarrow> hd (Itoa i) = CHR ''-''"
  by (simp add: Itoa_def)

lemma digit_isDigit: "d < 10 \<Longrightarrow> isDigit (digit d)"
  unfolding isDigit_def digit_def by (rule nth_mem) simp

lemma hd_digits_isDigit: "isDigit (hd (digits n))"
proof (induction n rule: digits.induct)
  case (1 n)
  show ?case
  proof (cases "n < 10")
    case True
    then show ?thesis
      by (subst digits.simps) (simp add: digit_isDigit)
  next
    case False
    with 1 show ?thesis
      by (subst digits.simps) (simp add: digits_nonempty)
  qed
qed

lemma Itoa_first_digit: "0 \<le> i \<Longrightarrow> isDigit (hd (Itoa i))"
  by (simp add: Itoa_def hd_digits_isDigit)

lemma Atoi_empty: "Atoi [] = Inl ErrSyntax"
  by (simp add: Atoi_def)

lemma Header_Set_simps [simp]:
  "wStatus (Header_Set w k v) = wStatus w"
  "wBody (Header_Set w k v) = wBody w"
  "wInformational (Header_Set w k v) = wInformational w"
  "wHeader (Header_Set w k v) = (wHeader w)(k \<mapsto> v)"
  by (simp_all add: Header_Set_def)

lemma fold_Header_Set_keep:
  "wStatus (fold (\<lambda>x w. Header_Set w (f x) (g x)) xs w) = wStatus w \<and>
   wBody (fold (\<lambda>x w. Header_Set w (f x) (g x)) xs w) = wBody w"
  by (induction xs arbitrary: w) simp_all

lemma debugEcho_keep [simp]:
  "wStatus (debugEcho env r w) = wStatus w" "wBody (debugEcho env r w) = wBody w"
  using fold_Header_Set_keep [of "\<lambda>k. k" "\<lambda>k. Get (Header r) k" _ w]
  by (simp_all add: debugEcho_def)

lemma WriteHeader_invalid:
  "wStatus w = None \<Longrightarrow> code < 100 \<or> 999 < code \<Longrightarrow>
   WriteHeader code w = Inl (InvalidWriteHeaderCode code)"
  by (simp add: WriteHeader_def)

lemma WriteHeader_final:
  "wStatus w = None \<Longrightarrow> 200 \<le> code \<Longrightarrow> code \<le> 999 \<Longrightarrow>
   WriteHeader code w = Inr (w\<lparr>wStatus := Some code\<rparr>)"
  by (simp add: WriteHeader_def)

lemma WriteHeader_header: "WriteHeader code w = Inr w' \<Longrightarrow> wHeader w' = wHeader w"
  by (auto simp: WriteHeader_def split: if_splits)

lemma WriteHeader_not_index: "WriteHeader code w \<noteq> Inl IndexOutOfRange"
  by (simp add: WriteHeader_def)

lemma Copy_header [simp]: "wHeader (Copy w src) = wHeader w"
  by (simp add: Copy_def Write_def Let_def)

lemma Copy_body:
  "wStatus w = Some c \<Longrightarrow> bodyAllowedForStatus c \<Longrightarrow>
   wStatus (Copy w src) = Some c \<and> wBody (Copy w src) = wBody w @ src"
  by (simp add: Copy_def Write_def Let_def)

lemma NotFound_fresh:
  "wStatus w = None \<Longrightarrow>
   \<exists>w'. NotFound w = Inr w' \<and> wStatus w' = Some 404 \<and>
     wHeader w' ''Content-Type'' = Some ''text/plain; charset=utf-8''"
  by (simp add: NotFound_def WriteHeader_def Write_def Let_def)

lemma NotFound_not_index: "NotFound w \<noteq> Inl IndexOutOfRange"
  using WriteHeader_not_index by (auto simp: NotFound_def Let_def split: sum.splits)

lemma classify_fresh:
  "classify env r = (w, format, ext, code) \<Longrightarrow> wStatus w = None \<and> wBody w = []"
  by (auto simp: classify_def newWriter_def split: prod.splits)

lemma classify_parts:
  "classify env r = (w, format, ext, code) \<Longrightarrow>
     format = fst (resolveFormat env r) \<and> ext = normalizeExt (snd (resolveFormat env r)) \<and>
     code = resolveCode r \<and> wHeader w ContentType = Some format"
  by (auto simp: classify_def split: prod.splits)

lemma modifyOutput_keep:
  "modifyOutput env w ext path service uri headers endpoints ingressCode returnCode =
     (w', filename, content, customCode) \<Longrightarrow>
   wStatus w' = wStatus w \<and> wBody w' = wBody w"
  using fold_Header_Set_keep [of fst snd headers w]
  by (auto simp: modifyOutput_def Let_def)

lemma resolve_keep:
  "resolve path env r w ext code = (w', filename, content, customCode) \<Longrightarrow>
   wStatus w' = wStatus w \<and> wBody w' = wBody w"
  by (auto simp: resolve_def Let_def dest: modifyOutput_keep split: if_splits)

lemma resolve_plain:
  "Get (Header r) ServiceName \<noteq> ''refresh'' \<Longrightarrow>
   resolve path env r w ext code = (w, path @ ''/'' @ Itoa code @ ext, None, code)"
  by (simp add: resolve_def)

lemma emit_literal:
  "emit path env r w ext code filename (Some v) customCode =
     (case WriteHeader customCode w of
        Inl e \<Rightarrow> Inl e
      | Inr w \<Rightarrow> Inr \<lparr>writer = Copy w v, metrics = observe env r, opened = []\<rparr>)"
  by (simp add: emit_def)

lemma emit_primary:
  "Open env filename = Inr f \<Longrightarrow>
   emit path env r w ext code filename None customCode =
     (case WriteHeader customCode w of
        Inl e \<Rightarrow> Inl e
      | Inr w \<Rightarrow> Inr \<lparr>writer = Copy w f, metrics = observe env r, opened = [filename]\<rparr>)"
  by (simp add: emit_def)

lemma emit_fallback:
  "Open env filename = Inl e \<Longrightarrow> Itoa code = c # rest \<Longrightarrow>
   Open env (path @ ''/'' @ c # ''xx'' @ ext) = Inr f \<Longrightarrow>
   emit path env r w ext code filename None customCode =
     (case WriteHeader code w of
        Inl e \<Rightarrow> Inl e
      | Inr w \<Rightarrow>
          Inr \<lparr>writer = Copy w f, metrics = [],
               opened = [filename, path @ ''/'' @ c # ''xx'' @ ext]\<rparr>)"
  by (simp add: emit_def split: sum.splits)

lemma emit_not_found:
  "Open env filename = Inl e \<Longrightarrow> Itoa code = c # rest \<Longrightarrow>
   Open env (path @ ''/'' @ c # ''xx'' @ ext) = Inl e' \<Longrightarrow>
   emit path env r w ext code filename None customCode =
     (case NotFound w of
        Inl e \<Rightarrow> Inl e
      | Inr w \<Rightarrow>
          Inr \<lparr>writer = w, metrics = [],
               opened = [filename, path @ ''/'' @ c # ''xx'' @ ext]\<rparr>)"
  by (simp add: emit_def split: sum.splits)

lemma emit_not_index: "emit path env r w ext code filename content customCode \<noteq> Inl IndexOutOfRange"
  using Itoa_nonempty [of code] WriteHeader_not_index NotFound_not_index
  by (auto simp: emit_def Let_def split: option.splits sum.splits list.splits)

lemma errorHandler_not_index: "errorHandler path env r \<noteq> Inl IndexOutOfRange"
  by (simp add: errorHandler_def emit_not_index split: prod.splits)

lemma observe_events:
  "observe env r =
     [Inc (Itoa (ProtoMajor r) @ ''.'' @ Itoa (ProtoMinor r)),
      Observe (Itoa (ProtoMajor r) @ ''.'' @ Itoa (ProtoMinor r)) (elapsed env)]"
  by (simp add: observe_def Let_def)

lemma Itoa_404: "Itoa 404 = ''404''"
  by code_simp

lemma resolveFormat_format:
  "fst (resolveFormat env r) =
     (let raw = Get (Header r) FormatHeader;
          asked = (if raw = [] then ''text/html'' else raw)
      in case ExtensionsByType env asked of Inl err \<Rightarrow> ''text/html'' | Inr cext \<Rightarrow> asked)"
  by (simp add: resolveFormat_def Let_def split: sum.splits)

text \<open>
  The first loop of \<^verbatim>\<open>modifyOutput\<close> also ranges over a map. Its keys are distinct, so
  every order of the loop leaves the same headers.
\<close>

lemma fold_Header_Set_map_of:
  "fold (\<lambda>hv w. Header_Set w (fst hv) (snd hv)) hs w = w\<lparr>wHeader := wHeader w ++ map_of (rev hs)\<rparr>"
proof (induction hs arbitrary: w)
  case Nil
  show ?case by simp
next
  case (Cons hv hs)
  let ?f = "\<lambda>hv w. Header_Set w (fst hv) (snd hv)"
  have eq: "(wHeader w)(fst hv \<mapsto> snd hv) ++ map_of (rev hs) =
        wHeader w ++ map_of (rev (hv # hs))"
    by (cases hv) simp
  have "fold ?f (hv # hs) w = fold ?f hs (Header_Set w (fst hv) (snd hv))"
    by simp
  also have "\<dots> = (Header_Set w (fst hv) (snd hv))\<lparr>wHeader :=
         wHeader (Header_Set w (fst hv) (snd hv)) ++ map_of (rev hs)\<rparr>"
    by (rule Cons)
  also have "\<dots> = w\<lparr>wHeader := (wHeader w)(fst hv \<mapsto> snd hv) ++ map_of (rev hs)\<rparr>"
    by (simp add: Header_Set_def)
  finally show ?case
    by (simp only: eq)
qed

lemma header_loop_order:
  assumes "distinct (map fst hs)" and "distinct (map fst hs')" and "set hs = set hs'"
  shows "fold (\<lambda>hv w. Header_Set w (fst hv) (snd hv)) hs w =
         fold (\<lambda>hv w. Header_Set w (fst hv) (snd hv)) hs' w"
proof -
  have "distinct (map fst (rev hs))"
    by (metis assms(1) distinct_rev rev_map)
  moreover have "distinct (map fst (rev hs'))"
    by (metis assms(2) distinct_rev rev_map)
  moreover have "set (rev hs) = set (rev hs')"
    using assms(3) by simp
  ultimately have "map_of (rev hs) = map_of (rev hs')"
    by (simp only: map_of_inject_set)
  then show ?thesis
    by (simp add: fold_Header_Set_map_of)
qed

lemma refreshHeaders_distinct: "distinct (map fst (refreshHeaders r))"
  by (simp add: refreshHeaders_def)

subsection \<open>The leading dot of the extension\<close>

text \<open>
  C9. Adding the leading dot (lines 165-167) is idempotent: for every string, doing it
  twice gives what doing it once gives, and an extension that already starts with a dot
  is left as it is.
\<close>

theorem normalizeExt_idempotent:
  "normalizeExt (normalizeExt s) = normalizeExt s \<and>
   (HasPrefix s ''.'' \<longrightarrow> normalizeExt s = s)"
  by (simp add: normalizeExt_def HasPrefix_def)

theorem normalizeExt_idempotent_witness:
  "HasPrefix ''.json'' ''.'' \<and> normalizeExt ''.json'' = ''.json'' \<and>
   normalizeExt (normalizeExt ''html'') = ''.html''"
  using normalizeExt_idempotent [of "''.json''"] normalizeExt_idempotent [of "''html''"]
  by (simp add: normalizeExt_def HasPrefix_def)

subsection \<open>The first byte of the code's decimal form\<close>

text \<open>
  C10. The string that \<^verbatim>\<open>strconv.Itoa\<close> returns is never empty, for any code: it starts
  with \<open>-\<close> for a negative code and is \<open>0\<close> for zero. So \<^verbatim>\<open>scode[0]\<close> at line 184 is in
  bounds, and no call of the handler ends in the index panic.
\<close>

theorem scode_index_in_bounds:
  "Itoa code \<noteq> [] \<and>
   (code < 0 \<longrightarrow> hd (Itoa code) = CHR ''-'') \<and>
   Itoa 0 = ''0'' \<and>
   errorHandler path env r \<noteq> Inl IndexOutOfRange"
  by (simp add: Itoa_nonempty Itoa_negative Itoa_zero errorHandler_not_index)

text \<open>
  At \<^verbatim>\<open>X-Code: -7\<close> the first byte is the minus sign: the handler gets past line 184,
  opens \<^verbatim>\<open>/www/-xx.json\<close>, and it is \<^verbatim>\<open>WriteHeader(-7)\<close> at line 193 that panics.
\<close>

theorem scode_index_in_bounds_witness:
  "(- 7 :: int) < 0 \<and> Itoa (- 7) = ''-7'' \<and> hd (Itoa (- 7)) = CHR ''-'' \<and>
   summary (errorHandler ''/www'' (mkWorld [] [(''/www/-xx.json'', ''{}'')] refreshEndpoints)
     (mkRequest [(''X-Code'', ''-7''), (''X-Format'', ''application/json'')])) =
   Inl (InvalidWriteHeaderCode (- 7))"
proof -
  have "Itoa (- 7) = ''-7''"
    by code_simp
  moreover have "summary (errorHandler ''/www''
       (mkWorld [] [(''/www/-xx.json'', ''{}'')] refreshEndpoints)
       (mkRequest [(''X-Code'', ''-7''), (''X-Format'', ''application/json'')])) =
     Inl (InvalidWriteHeaderCode (- 7))"
    by code_simp
  ultimately show ?thesis
    using scode_index_in_bounds [of "- 7"] by simp
qed

subsection \<open>The order of the routes\<close>

lemma endpointStep_pair:
  "endpointStep env path uri (endpoint, conf) (filename, content, customCode) =
     (if Getenv env (index conf ''env'') \<noteq> [] then
        (filename, Some (Getenv env (index conf ''env'')), customCode)
      else if Contains uri endpoint then (path @ ''/'' @ index conf ''file'', content, 200)
      else (filename, content, customCode))"
  by (simp add: endpointStep_def)

lemma envSet_pair:
  "envSet env (endpoint, conf) = (Getenv env (index conf ''env'') \<noteq> [])"
  by (simp add: envSet_def)

lemma fold_endpointStep_content:
  "fst (snd (fold (endpointStep env path uri) eps (filename, content, customCode))) =
     (if filter (envSet env) eps = [] then content
      else Some (Getenv env (index (snd (last (filter (envSet env) eps))) ''env'')))"
proof (induction eps rule: rev_induct)
  case Nil
  show ?case by simp
next
  case (snoc ec eps)
  obtain endpoint conf where ec: "ec = (endpoint, conf)"
    by (cases ec)
  obtain f c cc where
    st: "fold (endpointStep env path uri) eps (filename, content, customCode) = (f, c, cc)"
    by (metis prod_cases3)
  show ?case
  proof (cases "Getenv env (index conf ''env'') = []")
    case True
    with snoc ec st show ?thesis
      by (simp add: endpointStep_pair envSet_pair)
  next
    case False
    with ec st show ?thesis
      by (simp add: endpointStep_pair envSet_pair)
  qed
qed

lemma modifyOutput_two_orders:
  assumes "Getenv env ''REFRESH_FRESHA_MAINTENANCE'' = [] \<or>
           Getenv env ''REFRESH_SHEDUL_MAINTENANCE'' = []"
    and "\<not> (Contains uri ''/version-checks/fresha'' \<and> Contains uri ''/version-checks/shedul'')"
  shows "modifyOutput env w ext path service uri headers refreshEndpoints code rc =
         modifyOutput env w ext path service uri headers (rev refreshEndpoints) code rc"
  using assms
  by (auto simp: modifyOutput_def refreshEndpoints_def endpointStep_pair index_def Let_def)

text \<open>
  C4, as the code has it. The routes are the entries of a Go map, and \<^verbatim>\<open>range\<close> visits
  them in an order that is not fixed. Whatever order \<open>eps\<close> a run takes, the literal
  content is the value of the last route of \<open>eps\<close> whose environment variable is set
  (none when no variable is set), so the result is a function of the inputs and of that
  order. The two orders of the two configured routes give the same file, content and
  code when at most one of the two variables is set and the URI does not contain both
  match keys.
\<close>

theorem modifyOutput_last_in_order_wins:
  assumes "modifyOutput env w ext path service uri headers eps code rc =
             (w', filename, content, customCode)"
  shows "content =
           (if filter (envSet env) eps = [] then None
            else Some (Getenv env (index (snd (last (filter (envSet env) eps))) ''env''))) \<and>
         ((Getenv env ''REFRESH_FRESHA_MAINTENANCE'' = [] \<or>
           Getenv env ''REFRESH_SHEDUL_MAINTENANCE'' = []) \<longrightarrow>
          \<not> (Contains uri ''/version-checks/fresha'' \<and> Contains uri ''/version-checks/shedul'') \<longrightarrow>
          modifyOutput env w ext path service uri headers refreshEndpoints code rc =
          modifyOutput env w ext path service uri headers (rev refreshEndpoints) code rc)"
proof -
  have "content =
      fst (snd (fold (endpointStep env path uri) eps (path @ ''/'' @ Itoa code @ ext, None, 0)))"
    using assms by (auto simp: modifyOutput_def Let_def)
  then show ?thesis
    using modifyOutput_two_orders [of env uri w ext path service headers code rc]
    by (simp only: fold_endpointStep_content) blast
qed

theorem modifyOutput_last_in_order_wins_witness:
  "snd (modifyOutput (mkWorld bothDown [] refreshEndpoints) newWriter ''.json'' ''/www'' ''refresh''
      ''/'' [] (rev refreshEndpoints) 503 200) = (''/www/503.json'', Some ''down'', 0) \<and>
   filter (envSet (mkWorld bothDown [] refreshEndpoints)) (rev refreshEndpoints) =
     rev refreshEndpoints \<and>
   index (snd (last (rev refreshEndpoints))) ''env'' = ''REFRESH_FRESHA_MAINTENANCE'' \<and>
   Getenv (mkWorld [(''REFRESH_SHEDUL_MAINTENANCE'', ''closed'')] [] refreshEndpoints)
     ''REFRESH_FRESHA_MAINTENANCE'' = [] \<and>
   \<not> Contains ''/version-checks/fresha'' ''/version-checks/shedul'' \<and>
   modifyOutput (mkWorld [(''REFRESH_SHEDUL_MAINTENANCE'', ''closed'')] [] refreshEndpoints)
     newWriter ''.json'' ''/www'' ''refresh'' ''/version-checks/fresha'' [] refreshEndpoints
     503 200 =
   modifyOutput (mkWorld [(''REFRESH_SHEDUL_MAINTENANCE'', ''closed'')] [] refreshEndpoints)
     newWriter ''.json'' ''/www'' ''refresh'' ''/version-checks/fresha'' []
     (rev refreshEndpoints) 503 200"
proof -
  let ?W = "mkWorld [(''REFRESH_SHEDUL_MAINTENANCE'', ''closed'')] [] refreshEndpoints"
  let ?m = "modifyOutput (mkWorld bothDown [] refreshEndpoints) newWriter ''.json'' ''/www''
      ''refresh'' ''/'' [] (rev refreshEndpoints) 503 200"
  let ?n = "modifyOutput ?W newWriter ''.json'' ''/www'' ''refresh'' ''/version-checks/fresha'' []
      refreshEndpoints 503 200"
  have a: "snd ?m = (''/www/503.json'', Some ''down'', 0)"
    by code_simp
  have b: "filter (envSet (mkWorld bothDown [] refreshEndpoints)) (rev refreshEndpoints) =
      rev refreshEndpoints"
    by code_simp
  have c: "index (snd (last (rev refreshEndpoints))) ''env'' = ''REFRESH_FRESHA_MAINTENANCE''"
    by code_simp
  have d: "Getenv ?W ''REFRESH_FRESHA_MAINTENANCE'' = []"
    by code_simp
  have e: "\<not> Contains ''/version-checks/fresha'' ''/version-checks/shedul''"
    by code_simp
  have n: "?n = (fst ?n, fst (snd ?n), fst (snd (snd ?n)), snd (snd (snd ?n)))"
    by simp
  show ?thesis
    using a b c d e modifyOutput_last_in_order_wins [OF n]
    by simp
qed

text \<open>
  C4 as stated fails: with both variables set, the two orders in which \<^verbatim>\<open>range\<close> may
  visit the routes resolve different literal content on the same inputs.
\<close>

theorem modifyOutput_order_counterexample:
  "refreshEndpoints \<in> rangeOrders \<and> rev refreshEndpoints \<in> rangeOrders \<and>
   snd (modifyOutput (mkWorld bothDown [] refreshEndpoints) newWriter ''.json'' ''/www''
      ''refresh'' ''/'' [] refreshEndpoints 503 200) = (''/www/503.json'', Some ''closed'', 0) \<and>
   snd (modifyOutput (mkWorld bothDown [] refreshEndpoints) newWriter ''.json'' ''/www''
      ''refresh'' ''/'' [] (rev refreshEndpoints) 503 200) = (''/www/503.json'', Some ''down'', 0)"
  by (simp add: rangeOrders_def) code_simp

subsection \<open>Literal content from the environment\<close>

text \<open>
  With \<^verbatim>\<open>REFRESH_FRESHA_MAINTENANCE\<close> set, \<^verbatim>\<open>modifyOutput\<close> resolves literal content, and
  its \<^verbatim>\<open>customCode\<close> is 200 only when the \<^emph>\<open>other\<close> route takes the branch of line 100: the
  shedul variable is empty and the URI contains the shedul key. Otherwise it is 0.
\<close>

lemma refresh_literal_code:
  assumes "Getenv env ''REFRESH_FRESHA_MAINTENANCE'' \<noteq> []" and "eps \<in> rangeOrders"
  shows "\<exists>filename v.
           snd (modifyOutput env w ext path service uri headers eps code rc) =
             (filename, Some v,
              if Getenv env ''REFRESH_SHEDUL_MAINTENANCE'' = [] \<and>
                 Contains uri ''/version-checks/shedul'' then 200 else 0)"
  using assms
  by (auto simp: rangeOrders_def modifyOutput_def refreshEndpoints_def endpointStep_pair
      index_def Let_def)

lemma refresh_literal_panics:
  assumes "Get (Header r) ServiceName = ''refresh''"
    and "Getenv env ''REFRESH_FRESHA_MAINTENANCE'' \<noteq> []"
    and "rangeOrder env \<in> rangeOrders"
    and "\<not> (Getenv env ''REFRESH_SHEDUL_MAINTENANCE'' = [] \<and>
            Contains (Get (Header r) OriginalURI) ''/version-checks/shedul'')"
  shows "errorHandler path env r = Inl (InvalidWriteHeaderCode 0)"
proof -
  obtain w format ext code where c: "classify env r = (w, format, ext, code)"
    by (metis prod_cases4)
  obtain w' filename content customCode where
    m: "resolve path env r w ext code = (w', filename, content, customCode)"
    by (metis prod_cases4)
  from refresh_literal_code [OF assms(2,3), of w ext path "''refresh''"
      "Get (Header r) OriginalURI" "refreshHeaders r" code 200]
  obtain v where "content = Some v" and "customCode = 0"
    using m assms(1,4) by (auto simp: resolve_def)
  moreover have "wStatus w' = None"
    using classify_fresh [OF c] resolve_keep [OF m] by simp
  ultimately show ?thesis
    using c m by (simp add: errorHandler_def emit_literal WriteHeader_invalid)
qed

text \<open>
  The one case in which the literal content is served: the shedul route, with its
  variable empty and its key in the URI, assigns 200 to \<^verbatim>\<open>customCode\<close> at line 100.
\<close>

lemma refresh_literal_served:
  assumes "Get (Header r) ServiceName = ''refresh''"
    and "Getenv env ''REFRESH_FRESHA_MAINTENANCE'' = V" and "V \<noteq> []"
    and "rangeOrder env \<in> rangeOrders"
    and "Getenv env ''REFRESH_SHEDUL_MAINTENANCE'' = []"
    and "Contains (Get (Header r) OriginalURI) ''/version-checks/shedul''"
  shows "\<exists>res. errorHandler path env r = Inr res \<and> wStatus (writer res) = Some 200 \<and>
           wBody (writer res) = V \<and> opened res = []"
proof -
  obtain w format ext code where c: "classify env r = (w, format, ext, code)"
    by (metis prod_cases4)
  obtain w' filename content customCode where
    m: "resolve path env r w ext code = (w', filename, content, customCode)"
    by (metis prod_cases4)
  have "content = Some V \<and> customCode = 200"
    using m assms
    by (auto simp: resolve_def rangeOrders_def modifyOutput_def refreshEndpoints_def
        endpointStep_pair index_def Let_def)
  moreover have fresh: "wStatus w' = None" "wBody w' = []"
    using classify_fresh [OF c] resolve_keep [OF m] by simp_all
  moreover have "wStatus (Copy (w'\<lparr>wStatus := Some 200\<rparr>) V) = Some 200 \<and>
      wBody (Copy (w'\<lparr>wStatus := Some 200\<rparr>) V) = V"
    using Copy_body [of "w'\<lparr>wStatus := Some 200\<rparr>" 200 V] fresh
    by (simp add: bodyAllowedForStatus_def)
  ultimately show ?thesis
    using c m WriteHeader_final [OF fresh(1), of 200]
    by (simp add: errorHandler_def emit_literal)
qed

text \<open>
  C1 says that with \<^verbatim>\<open>X-Service-Name: refresh\<close> and \<^verbatim>\<open>REFRESH_FRESHA_MAINTENANCE\<close> set to
  \<open>V\<close> the body is \<open>V\<close> and the status 200. The branch of lines 97-98 captures the
  content but never assigns \<^verbatim>\<open>customCode\<close>, and the parameter \<^verbatim>\<open>returnCode\<close> (200) is not
  used: here the resolver returns the content \<^verbatim>\<open>down\<close> with code 0, line 177 calls
  \<^verbatim>\<open>WriteHeader(0)\<close>, which panics, and neither a status nor a body is written.
\<close>

theorem refresh_literal_write_header_zero:
  "Get (Header (mkRequest [(''X-Service-Name'', ''refresh''),
        (''X-Original-URI'', ''/version-checks/fresha''), (''X-Code'', ''503''),
        (''X-Format'', ''application/json'')])) ServiceName = ''refresh'' \<and>
   Getenv (mkWorld [(''REFRESH_FRESHA_MAINTENANCE'', ''down'')] [] refreshEndpoints)
     ''REFRESH_FRESHA_MAINTENANCE'' = ''down'' \<and>
   snd (resolve ''/www'' (mkWorld [(''REFRESH_FRESHA_MAINTENANCE'', ''down'')] [] refreshEndpoints)
      (mkRequest [(''X-Service-Name'', ''refresh''),
        (''X-Original-URI'', ''/version-checks/fresha''), (''X-Code'', ''503''),
        (''X-Format'', ''application/json'')])
      (fst (classify (mkWorld [(''REFRESH_FRESHA_MAINTENANCE'', ''down'')] [] refreshEndpoints)
        (mkRequest [(''X-Service-Name'', ''refresh''),
          (''X-Original-URI'', ''/version-checks/fresha''), (''X-Code'', ''503''),
          (''X-Format'', ''application/json'')])))
      ''.json'' 503) = (''/www/503.json'', Some ''down'', 0) \<and>
   summary (errorHandler ''/www''
      (mkWorld [(''REFRESH_FRESHA_MAINTENANCE'', ''down'')] [] refreshEndpoints)
      (mkRequest [(''X-Service-Name'', ''refresh''),
        (''X-Original-URI'', ''/version-checks/fresha''), (''X-Code'', ''503''),
        (''X-Format'', ''application/json'')])) =
     Inl (InvalidWriteHeaderCode 0)"
  by code_simp

subsection \<open>Metrics\<close>

text \<open>
  Of the calls that return, the literal path and the primary file record the two events
  of lines 208-209; the other paths record nothing.
\<close>

lemma metrics_of_paths:
  assumes c: "classify env r = (w, format, ext, code)"
    and m: "resolve path env r w ext code = (w', filename, content, customCode)"
    and res: "errorHandler path env r = Inr res"
  shows "metrics res = (if content \<noteq> None \<or> \<not> isl (Open env filename) then observe env r else [])"
  using c m res
  by (auto simp: errorHandler_def emit_def Let_def split: option.splits sum.splits list.splits)

text \<open>
  C2 says that a request served from the class-level fallback file records one count
  and one duration. The code returns at line 195, before line 203: with no
  \<^verbatim>\<open>/www/503.json\<close> and a \<^verbatim>\<open>/www/5xx.json\<close>, the body of the fallback file is sent with
  status 503 and no metric event is recorded.
\<close>

theorem fallback_body_without_metrics:
  "summary (errorHandler ''/www'' (mkWorld [] [(''/www/5xx.json'', ''{}'')] refreshEndpoints)
      (mkRequest [(''X-Code'', ''503''), (''X-Format'', ''application/json'')])) =
     Inr (Some 503, ''{}'', Some ''application/json'', [], [''/www/503.json'', ''/www/5xx.json''])"
  by code_simp

subsection \<open>A refresh request that matches no route\<close>

lemma refresh_unmatched_resolve:
  assumes "Get (Header r) ServiceName = ''refresh''"
    and "Getenv env ''REFRESH_FRESHA_MAINTENANCE'' = []"
    and "Getenv env ''REFRESH_SHEDUL_MAINTENANCE'' = []"
    and "\<not> Contains (Get (Header r) OriginalURI) ''/version-checks/fresha''"
    and "\<not> Contains (Get (Header r) OriginalURI) ''/version-checks/shedul''"
    and "rangeOrder env \<in> rangeOrders"
  shows "snd (resolve path env r w ext code) = (path @ ''/'' @ Itoa code @ ext, None, 0)"
  using assms
  by (auto simp: resolve_def rangeOrders_def modifyOutput_def refreshEndpoints_def
      endpointStep_pair index_def Let_def)

lemma refresh_unmatched_panics:
  assumes "Get (Header r) ServiceName = ''refresh''"
    and "Getenv env ''REFRESH_FRESHA_MAINTENANCE'' = []"
    and "Getenv env ''REFRESH_SHEDUL_MAINTENANCE'' = []"
    and "\<not> Contains (Get (Header r) OriginalURI) ''/version-checks/fresha''"
    and "\<not> Contains (Get (Header r) OriginalURI) ''/version-checks/shedul''"
    and "rangeOrder env \<in> rangeOrders"
    and c: "classify env r = (w, format, ext, code)"
    and "Open env (path @ ''/'' @ Itoa code @ ext) = Inr f"
  shows "errorHandler path env r = Inl (InvalidWriteHeaderCode 0)"
proof -
  obtain w' filename content customCode where
    m: "resolve path env r w ext code = (w', filename, content, customCode)"
    by (metis prod_cases4)
  have "filename = path @ ''/'' @ Itoa code @ ext" and "content = None" and "customCode = 0"
    using refresh_unmatched_resolve [OF assms(1-6), of path w ext code] m by simp_all
  moreover have "wStatus w' = None"
    using classify_fresh [OF c] resolve_keep [OF m] by simp
  ultimately show ?thesis
    using c m assms(8) by (simp add: errorHandler_def emit_primary WriteHeader_invalid)
qed

text \<open>
  C3 says that the classified status stays in effect when no route's variable is set
  and no match key occurs in the URI. The file does stay \<^verbatim>\<open>/www/503.json\<close>, but
  \<^verbatim>\<open>modifyOutput\<close> returns the zero value of its own \<^verbatim>\<open>customCode\<close>, and the handler calls
  \<^verbatim>\<open>WriteHeader(0)\<close> at line 199 where the classified code is 503; the call panics and no
  response is written.
\<close>

theorem refresh_unmatched_status_zero:
  "Getenv (mkWorld [] [(''/www/503.json'', ''{}'')] refreshEndpoints) ''REFRESH_FRESHA_MAINTENANCE'' = [] \<and>
   Getenv (mkWorld [] [(''/www/503.json'', ''{}'')] refreshEndpoints) ''REFRESH_SHEDUL_MAINTENANCE'' = [] \<and>
   \<not> Contains ''/other'' ''/version-checks/fresha'' \<and>
   \<not> Contains ''/other'' ''/version-checks/shedul'' \<and>
   snd (classify (mkWorld [] [(''/www/503.json'', ''{}'')] refreshEndpoints)
      (mkRequest [(''X-Service-Name'', ''refresh''), (''X-Original-URI'', ''/other''),
                  (''X-Code'', ''503''), (''X-Format'', ''application/json'')])) =
     (''application/json'', ''.json'', 503) \<and>
   snd (resolve ''/www'' (mkWorld [] [(''/www/503.json'', ''{}'')] refreshEndpoints)
      (mkRequest [(''X-Service-Name'', ''refresh''), (''X-Original-URI'', ''/other''),
                  (''X-Code'', ''503''), (''X-Format'', ''application/json'')])
      (fst (classify (mkWorld [] [(''/www/503.json'', ''{}'')] refreshEndpoints)
        (mkRequest [(''X-Service-Name'', ''refresh''), (''X-Original-URI'', ''/other''),
                    (''X-Code'', ''503''), (''X-Format'', ''application/json'')])))
      ''.json'' 503) = (''/www/503.json'', None, 0) \<and>
   Open (mkWorld [] [(''/www/503.json'', ''{}'')] refreshEndpoints) ''/www/503.json'' = Inr ''{}'' \<and>
   summary (errorHandler ''/www'' (mkWorld [] [(''/www/503.json'', ''{}'')] refreshEndpoints)
      (mkRequest [(''X-Service-Name'', ''refresh''), (''X-Original-URI'', ''/other''),
                  (''X-Code'', ''503''), (''X-Format'', ''application/json'')])) =
     Inl (InvalidWriteHeaderCode 0)"
  by code_simp

subsection \<open>The content type\<close>

lemma served_content_type:
  assumes c: "classify env r = (w, format, ext, code)"
    and plain: "Get (Header r) ServiceName \<noteq> ''refresh''"
    and res: "errorHandler path env r = Inr res"
    and last_opens: "Open env (last (opened res)) = Inr bytes"
  shows "wHeader (writer res) ContentType = Some format"
proof -
  let ?fn = "path @ ''/'' @ Itoa code @ ext"
  have h: "wHeader w ContentType = Some format"
    using classify_parts [OF c] by simp
  have e: "emit path env r w ext code ?fn None code = Inr res"
    using c res resolve_plain [OF plain] by (simp add: errorHandler_def)
  show ?thesis
  proof (cases "Open env ?fn")
    case (Inr f)
    with e h show ?thesis
      by (auto simp: emit_primary split: sum.splits dest: WriteHeader_header)
  next
    case (Inl err)
    obtain d rest where i: "Itoa code = d # rest"
      using Itoa_nonempty [of code] by (cases "Itoa code") auto
    show ?thesis
    proof (cases "Open env (path @ ''/'' @ d # ''xx'' @ ext)")
      case (Inr f)
      with e h Inl i show ?thesis
        by (auto simp: emit_fallback split: sum.splits dest: WriteHeader_header)
    next
      case inl2: (Inl err2)
      with e Inl i last_opens show ?thesis
        by (auto simp: emit_not_found split: sum.splits)
    qed
  qed
qed

text \<open>
  C5, as the code has it. Line 156 sets \<^verbatim>\<open>Content-Type\<close> to the \<^verbatim>\<open>X-Format\<close> value verbatim
  when that value is not empty and \<^verbatim>\<open>mime.ExtensionsByType\<close> reports no error for it (also
  when it reports no extension); to \<^verbatim>\<open>text/html\<close> when the header is absent or empty,
  or when \<^verbatim>\<open>ExtensionsByType\<close> reports an error (line 150). For a request whose service
  is not \<^verbatim>\<open>refresh\<close>, that is the content type of the response whenever the primary or
  the fallback file opens.
\<close>

theorem content_type_from_format:
  assumes "classify env r = (w, format, ext, code)"
  shows "format =
           (let raw = Get (Header r) FormatHeader;
                asked = (if raw = [] then ''text/html'' else raw)
            in case ExtensionsByType env asked of
                 Inl err \<Rightarrow> ''text/html''
               | Inr cext \<Rightarrow> asked) \<and>
         wHeader w ContentType = Some format \<and>
         (\<forall>res bytes. Get (Header r) ServiceName \<noteq> ''refresh'' \<longrightarrow>
            errorHandler path env r = Inr res \<longrightarrow>
            Open env (last (opened res)) = Inr bytes \<longrightarrow>
            wHeader (writer res) ContentType = Some format)"
  using classify_parts [OF assms] served_content_type [OF assms]
  by (simp only: resolveFormat_format) blast

theorem content_type_from_format_witness:
  "snd (classify (mkWorld [] [(''/www/5xx.json'', ''{}'')] refreshEndpoints)
      (mkRequest [(''X-Code'', ''503''), (''X-Format'', ''application/json'')])) =
     (''application/json'', ''.json'', 503) \<and>
   wHeader (fst (classify (mkWorld [] [(''/www/5xx.json'', ''{}'')] refreshEndpoints)
      (mkRequest [(''X-Code'', ''503''), (''X-Format'', ''application/json'')]))) ContentType =
     Some ''application/json'' \<and>
   Get (Header (mkRequest [(''X-Code'', ''503''), (''X-Format'', ''application/json'')]))
     ServiceName \<noteq> ''refresh'' \<and>
   Open (mkWorld [] [(''/www/5xx.json'', ''{}'')] refreshEndpoints) ''/www/5xx.json'' = Inr ''{}'' \<and>
   summary (errorHandler ''/www'' (mkWorld [] [(''/www/5xx.json'', ''{}'')] refreshEndpoints)
      (mkRequest [(''X-Code'', ''503''), (''X-Format'', ''application/json'')])) =
     Inr (Some 503, ''{}'', Some ''application/json'', [], [''/www/503.json'', ''/www/5xx.json''])"
proof -
  let ?W = "mkWorld [] [(''/www/5xx.json'', ''{}'')] refreshEndpoints"
  let ?R = "mkRequest [(''X-Code'', ''503''), (''X-Format'', ''application/json'')]"
  have a: "snd (classify ?W ?R) = (''application/json'', ''.json'', 503)"
    by code_simp
  then have c: "classify ?W ?R = (fst (classify ?W ?R), ''application/json'', ''.json'', 503)"
    by (simp add: prod_eq_iff)
  have b: "Get (Header ?R) ServiceName \<noteq> ''refresh''"
    by code_simp
  have d: "Open ?W ''/www/5xx.json'' = Inr ''{}''"
    by code_simp
  have e: "summary (errorHandler ''/www'' ?W ?R) =
     Inr (Some 503, ''{}'', Some ''application/json'', [], [''/www/503.json'', ''/www/5xx.json''])"
    by code_simp
  from content_type_from_format [OF c] a b d e show ?thesis
    by simp
qed

text \<open>
  C5 as stated fails: for \<^verbatim>\<open>X-Format: text/\<close>, which does not parse as a media type, the
  response carries \<^verbatim>\<open>Content-Type: text/html\<close>, not the header's value.
\<close>

theorem content_type_counterexample:
  "Header (mkRequest [(''X-Format'', ''text/'')]) FormatHeader = Some ''text/'' \<and>
   ExtensionsByType (mkWorld [] [(''/www/404.html'', ''page'')] refreshEndpoints) ''text/'' =
     Inl ErrMediaType \<and>
   snd (classify (mkWorld [] [(''/www/404.html'', ''page'')] refreshEndpoints)
      (mkRequest [(''X-Format'', ''text/'')])) = (''text/html'', ''.html'', 404) \<and>
   summary (errorHandler ''/www'' (mkWorld [] [(''/www/404.html'', ''page'')] refreshEndpoints)
      (mkRequest [(''X-Format'', ''text/'')])) =
     Inr (Some 404, ''page'', Some ''text/html'', [Inc ''1.1'', Observe ''1.1'' 1500],
          [''/www/404.html''])"
  by code_simp

subsection \<open>The class-level fallback file\<close>

text \<open>
  C6, as the code has it. Let \<open>C\<close> be the classified code, \<open>E\<close> the extension and \<open>D\<close>
  the first character of the decimal form of \<open>C\<close>. The handler gives \<open>C\<close> to
  \<^verbatim>\<open>WriteHeader\<close> unchecked, so the claim needs a code that net/http takes as the status
  of a response with a body: \<open>200 \<le> C \<le> 999\<close>, not 204 and not 304 (then \<open>D\<close> is the first
  digit of \<open>C\<close>). For such a code, when no literal content was resolved, opening the
  resolved file fails and opening \<open>path/Dxx E\<close> succeeds, the status written is \<open>C\<close>,
  also where \<^verbatim>\<open>customCode\<close> differs from \<open>C\<close>, and the body is the bytes of the fallback
  file. For a service other than \<^verbatim>\<open>refresh\<close> the resolved file is \<open>path/C E\<close>.
\<close>

theorem fallback_keeps_code:
  assumes c: "classify env r = (w, format, E, C)"
    and m: "resolve path env r w E C = (w', filename, None, customCode)"
    and primary: "Open env filename = Inl err"
    and first: "Itoa C = D # rest"
    and fallback: "Open env (path @ ''/'' @ D # ''xx'' @ E) = Inr bytes"
    and valid: "200 \<le> C" "C \<le> 999" "C \<noteq> 204" "C \<noteq> 304"
  shows "(\<exists>res. errorHandler path env r = Inr res \<and>
            wStatus (writer res) = Some C \<and> wBody (writer res) = bytes \<and>
            opened res = [filename, path @ ''/'' @ D # ''xx'' @ E]) \<and>
         (Get (Header r) ServiceName \<noteq> ''refresh'' \<longrightarrow> filename = path @ ''/'' @ Itoa C @ E) \<and>
         isDigit D"
proof -
  have fresh: "wStatus w' = None" "wBody w' = []"
    using classify_fresh [OF c] resolve_keep [OF m] by simp_all
  have allowed: "bodyAllowedForStatus C"
    using valid by (simp add: bodyAllowedForStatus_def)
  have "wStatus (Copy (w'\<lparr>wStatus := Some C\<rparr>) bytes) = Some C \<and>
        wBody (Copy (w'\<lparr>wStatus := Some C\<rparr>) bytes) = bytes"
    using Copy_body [of "w'\<lparr>wStatus := Some C\<rparr>" C bytes] allowed fresh by simp
  then have "\<exists>res. errorHandler path env r = Inr res \<and>
            wStatus (writer res) = Some C \<and> wBody (writer res) = bytes \<and>
            opened res = [filename, path @ ''/'' @ D # ''xx'' @ E]"
    using c m
    by (simp add: errorHandler_def emit_fallback [OF primary first fallback]
        WriteHeader_final [OF fresh(1) valid(1,2)])
  moreover have "Get (Header r) ServiceName \<noteq> ''refresh'' \<longrightarrow> filename = path @ ''/'' @ Itoa C @ E"
    using m by (auto simp: resolve_plain)
  moreover have "isDigit D"
    using Itoa_first_digit [of C] first valid(1) by simp
  ultimately show ?thesis
    by blast
qed

theorem fallback_keeps_code_witness:
  "snd (classify (mkWorld [] [(''/www/5xx.json'', ''{}'')] refreshEndpoints)
      (mkRequest [(''X-Service-Name'', ''refresh''), (''X-Original-URI'', ''/version-checks/fresha''),
                  (''X-Code'', ''503''), (''X-Format'', ''application/json'')])) =
     (''application/json'', ''.json'', 503) \<and>
   snd (resolve ''/www'' (mkWorld [] [(''/www/5xx.json'', ''{}'')] refreshEndpoints)
      (mkRequest [(''X-Service-Name'', ''refresh''), (''X-Original-URI'', ''/version-checks/fresha''),
                  (''X-Code'', ''503''), (''X-Format'', ''application/json'')])
      (fst (classify (mkWorld [] [(''/www/5xx.json'', ''{}'')] refreshEndpoints)
        (mkRequest [(''X-Service-Name'', ''refresh''), (''X-Original-URI'', ''/version-checks/fresha''),
                  (''X-Code'', ''503''), (''X-Format'', ''application/json'')])))
      ''.json'' 503) = (''/www/refresh-fresha.json'', None, 200) \<and>
   Open (mkWorld [] [(''/www/5xx.json'', ''{}'')] refreshEndpoints) ''/www/refresh-fresha.json'' =
     Inl ErrOpen \<and>
   Itoa 503 = ''503'' \<and> isDigit CHR ''5'' \<and> (200 :: int) \<le> 503 \<and> (503 :: int) \<le> 999 \<and>
   Open (mkWorld [] [(''/www/5xx.json'', ''{}'')] refreshEndpoints) ''/www/5xx.json'' = Inr ''{}'' \<and>
   summary (errorHandler ''/www'' (mkWorld [] [(''/www/5xx.json'', ''{}'')] refreshEndpoints)
      (mkRequest [(''X-Service-Name'', ''refresh''), (''X-Original-URI'', ''/version-checks/fresha''),
                  (''X-Code'', ''503''), (''X-Format'', ''application/json'')])) =
     Inr (Some 503, ''{}'', Some ''application/vnd.api+json; charset=utf-8'', [],
          [''/www/refresh-fresha.json'', ''/www/5xx.json''])"
proof -
  let ?W = "mkWorld [] [(''/www/5xx.json'', ''{}'')] refreshEndpoints"
  let ?R = "mkRequest [(''X-Service-Name'', ''refresh''), (''X-Original-URI'', ''/version-checks/fresha''),
                  (''X-Code'', ''503''), (''X-Format'', ''application/json'')]"
  let ?w = "fst (classify ?W ?R)"
  have a: "snd (classify ?W ?R) = (''application/json'', ''.json'', 503)"
    by code_simp
  then have c: "classify ?W ?R = (?w, ''application/json'', ''.json'', 503)"
    by (simp add: prod_eq_iff)
  have b: "snd (resolve ''/www'' ?W ?R ?w ''.json'' 503) = (''/www/refresh-fresha.json'', None, 200)"
    by code_simp
  then have m: "resolve ''/www'' ?W ?R ?w ''.json'' 503 =
      (fst (resolve ''/www'' ?W ?R ?w ''.json'' 503), ''/www/refresh-fresha.json'', None, 200)"
    by (simp add: prod_eq_iff)
  have p: "Open ?W ''/www/refresh-fresha.json'' = Inl ErrOpen"
    by code_simp
  have i: "Itoa 503 = CHR ''5'' # ''03''"
    by code_simp
  have f: "Open ?W (''/www'' @ ''/'' @ CHR ''5'' # ''xx'' @ ''.json'') = Inr ''{}''"
    by code_simp
  have e: "summary (errorHandler ''/www'' ?W ?R) =
     Inr (Some 503, ''{}'', Some ''application/vnd.api+json; charset=utf-8'', [],
          [''/www/refresh-fresha.json'', ''/www/5xx.json''])"
    by code_simp
  from fallback_keeps_code [OF c m p i f] a b p i f e show ?thesis
    by simp
qed

text \<open>
  C6 as stated fails: a code outside 100..999 is no status that \<^verbatim>\<open>WriteHeader\<close> accepts.
  At \<^verbatim>\<open>X-Code: 7\<close>, with no \<^verbatim>\<open>/www/7.json\<close> and a \<^verbatim>\<open>/www/7xx.json\<close>, the fallback file
  opens and line 193 calls \<^verbatim>\<open>WriteHeader(7)\<close>, which panics: no status 7 and no body.
\<close>

theorem fallback_code_counterexample:
  "snd (classify (mkWorld [] [(''/www/7xx.json'', ''{}'')] refreshEndpoints)
      (mkRequest [(''X-Code'', ''7''), (''X-Format'', ''application/json'')])) =
     (''application/json'', ''.json'', 7) \<and>
   Open (mkWorld [] [(''/www/7xx.json'', ''{}'')] refreshEndpoints) ''/www/7.json'' = Inl ErrOpen \<and>
   Itoa 7 = ''7'' \<and>
   Open (mkWorld [] [(''/www/7xx.json'', ''{}'')] refreshEndpoints) ''/www/7xx.json'' = Inr ''{}'' \<and>
   summary (errorHandler ''/www'' (mkWorld [] [(''/www/7xx.json'', ''{}'')] refreshEndpoints)
      (mkRequest [(''X-Code'', ''7''), (''X-Format'', ''application/json'')])) =
     Inl (InvalidWriteHeaderCode 7)"
  by code_simp

subsection \<open>Defaults of the classifier\<close>

text \<open>
  C7, as the code has it. For a request without \<^verbatim>\<open>X-Format\<close> the format and the
  \<^verbatim>\<open>Content-Type\<close> set at line 156 are \<^verbatim>\<open>text/html\<close>; the extension is the first one that
  \<^verbatim>\<open>mime.ExtensionsByType\<close> reports for \<^verbatim>\<open>text/html\<close>, with a leading dot, and \<^verbatim>\<open>.html\<close>
  only when it reports an error or no extension.
\<close>

theorem default_format_and_extension:
  assumes "Header r FormatHeader = None"
    and "classify env r = (w, format, ext, code)"
  shows "format = ''text/html'' \<and> wHeader w ContentType = Some ''text/html'' \<and>
         ext = (case ExtensionsByType env ''text/html'' of
                  Inl err \<Rightarrow> ''.html''
                | Inr cext \<Rightarrow> if length cext = 0 then ''.html'' else normalizeExt (cext ! 0))"
proof -
  have "Get (Header r) FormatHeader = []"
    using assms(1) by (simp add: Get_def)
  then have "resolveFormat env r =
      (case ExtensionsByType env ''text/html'' of
         Inl err \<Rightarrow> (''text/html'', ''html'')
       | Inr cext \<Rightarrow> if length cext = 0 then (''text/html'', ''html'') else (''text/html'', cext ! 0))"
    by (simp add: resolveFormat_def Let_def)
  then show ?thesis
    using classify_parts [OF assms(2)]
    by (auto simp: normalizeExt_def HasPrefix_def split: sum.splits)
qed

theorem default_format_and_extension_witness:
  "Header (mkRequest [(''X-Code'', ''503'')]) FormatHeader = None \<and>
   snd (classify (mkWorld [] [] refreshEndpoints) (mkRequest [(''X-Code'', ''503'')])) =
     (''text/html'', ''.htm'', 503) \<and>
   snd (classify ((mkWorld [] [] refreshEndpoints)\<lparr>ExtensionsByType := \<lambda>t. Inr []\<rparr>)
      (mkRequest [(''X-Code'', ''503'')])) = (''text/html'', ''.html'', 503)"
proof -
  let ?W = "mkWorld [] [] refreshEndpoints"
  let ?R = "mkRequest [(''X-Code'', ''503'')]"
  have h: "Header ?R FormatHeader = None"
    by code_simp
  have a: "snd (classify ?W ?R) = (''text/html'', ''.htm'', 503)"
    by code_simp
  then have c: "classify ?W ?R = (fst (classify ?W ?R), ''text/html'', ''.htm'', 503)"
    by (simp add: prod_eq_iff)
  have b: "snd (classify (?W\<lparr>ExtensionsByType := \<lambda>t. Inr []\<rparr>) ?R) = (''text/html'', ''.html'', 503)"
    by code_simp
  from default_format_and_extension [OF h c] h a b show ?thesis
    by simp
qed

text \<open>
  C7 as stated fails: Go's table lists \<^verbatim>\<open>.htm\<close> before \<^verbatim>\<open>.html\<close> for \<^verbatim>\<open>text/html\<close>, so the
  extension is \<^verbatim>\<open>.htm\<close> and an existing \<^verbatim>\<open>/www/404.html\<close> is not even opened.
\<close>

theorem default_extension_counterexample:
  "Header (mkRequest []) FormatHeader = None \<and>
   ExtensionsByType (mkWorld [] [(''/www/404.html'', ''page'')] refreshEndpoints) ''text/html'' =
     Inr [''.htm'', ''.html''] \<and>
   snd (classify (mkWorld [] [(''/www/404.html'', ''page'')] refreshEndpoints) (mkRequest [])) =
     (''text/html'', ''.htm'', 404) \<and>
   summary (errorHandler ''/www'' (mkWorld [] [(''/www/404.html'', ''page'')] refreshEndpoints)
      (mkRequest [])) =
     Inr (Some 404, ''404 page not found'' @ [CHR 0x0A], Some ''text/plain; charset=utf-8'', [],
          [''/www/404.htm'', ''/www/4xx.htm''])"
  by code_simp

text \<open>
  With \<^verbatim>\<open>X-Code\<close> absent or not parsed by \<^verbatim>\<open>strconv.Atoi\<close> the code is 404. For a service
  other than \<^verbatim>\<open>refresh\<close>, 404 selects the files (the first file opened is \<open>path/404 E\<close>,
  the only other one \<open>path/4xx E\<close>) and 404 is the status of the response on every path.
\<close>

lemma unparsed_code_is_404:
  assumes "Header r CodeHeader = None \<or> isl (Atoi (Get (Header r) CodeHeader))"
  shows "resolveCode r = 404 \<and>
         (Get (Header r) ServiceName \<noteq> ''refresh'' \<longrightarrow>
            (\<exists>res. errorHandler path env r = Inr res \<and>
               wStatus (writer res) = Some 404 \<and>
               hd (opened res) = path @ ''/404'' @ normalizeExt (snd (resolveFormat env r)) \<and>
               set (opened res) \<subseteq>
                 {path @ ''/404'' @ normalizeExt (snd (resolveFormat env r)),
                  path @ ''/4xx'' @ normalizeExt (snd (resolveFormat env r))}))"
proof -
  have "isl (Atoi (Get (Header r) CodeHeader))"
    using assms by (auto simp: Get_def Atoi_empty)
  then have code: "resolveCode r = 404"
    by (auto simp: resolveCode_def split: sum.splits)
  have served: "\<exists>res. errorHandler path env r = Inr res \<and>
               wStatus (writer res) = Some 404 \<and>
               hd (opened res) = path @ ''/404'' @ normalizeExt (snd (resolveFormat env r)) \<and>
               set (opened res) \<subseteq>
                 {path @ ''/404'' @ normalizeExt (snd (resolveFormat env r)),
                  path @ ''/4xx'' @ normalizeExt (snd (resolveFormat env r))}"
    if plain: "Get (Header r) ServiceName \<noteq> ''refresh''"
  proof -
    obtain w format ext c where c: "classify env r = (w, format, ext, c)"
      by (metis prod_cases4)
    have parts: "ext = normalizeExt (snd (resolveFormat env r))" "c = 404"
      using classify_parts [OF c] code by simp_all
    have fresh: "wStatus w = None"
      using classify_fresh [OF c] by simp
    have wh: "WriteHeader 404 w = Inr (w\<lparr>wStatus := Some 404\<rparr>)"
      using WriteHeader_final [OF fresh, of 404] by simp
    have st: "wStatus (Copy (w\<lparr>wStatus := Some 404\<rparr>) f) = Some 404" for f
      using Copy_body [of "w\<lparr>wStatus := Some 404\<rparr>" 404 f]
      by (simp add: bodyAllowedForStatus_def)
    have e: "errorHandler path env r = emit path env r w ext 404 (path @ ''/404'' @ ext) None 404"
      using c parts resolve_plain [OF plain, of path env w ext 404]
      by (simp add: errorHandler_def Itoa_404)
    show ?thesis
    proof (cases "Open env (path @ ''/404'' @ ext)")
      case (Inr f)
      with e wh st parts show ?thesis
        by (simp add: emit_primary)
    next
      case (Inl err)
      show ?thesis
      proof (cases "Open env (path @ ''/'' @ CHR ''4'' # ''xx'' @ ext)")
        case (Inr f)
        from emit_fallback [OF Inl Itoa_404 [unfolded list.simps] Inr] e wh st parts
        show ?thesis by simp
      next
        case inl2: (Inl err2)
        obtain w' where "NotFound w = Inr w'" and "wStatus w' = Some 404"
          using NotFound_fresh [OF fresh] by blast
        with emit_not_found [OF Inl _ inl2] e parts Itoa_404
        show ?thesis by simp
      qed
    qed
  qed
  from code served show ?thesis
    by blast
qed

text \<open>
  C8 says that with \<^verbatim>\<open>X-Code\<close> absent or unparsable the code is 404 and is the status of
  the response unless overridden. The code is 404 and selects \<^verbatim>\<open>/www/404.json\<close>, but for a
  \<^verbatim>\<open>refresh\<close> request that triggers no route (no variable set, no match key in the URI, so
  no override) line 172 replaces \<^verbatim>\<open>customCode\<close> by the zero value of \<^verbatim>\<open>modifyOutput\<close>'s
  own variable: line 199 calls \<^verbatim>\<open>WriteHeader(0)\<close>, not \<^verbatim>\<open>WriteHeader(404)\<close>, and panics.
\<close>

theorem unparsed_code_refresh_status_zero:
  "Header (mkRequest [(''X-Service-Name'', ''refresh''), (''X-Original-URI'', ''/other''),
                      (''X-Format'', ''application/json'')]) CodeHeader = None \<and>
   Getenv (mkWorld [] [(''/www/404.json'', ''{}'')] refreshEndpoints) ''REFRESH_FRESHA_MAINTENANCE'' = [] \<and>
   Getenv (mkWorld [] [(''/www/404.json'', ''{}'')] refreshEndpoints) ''REFRESH_SHEDUL_MAINTENANCE'' = [] \<and>
   \<not> Contains ''/other'' ''/version-checks/fresha'' \<and>
   \<not> Contains ''/other'' ''/version-checks/shedul'' \<and>
   snd (classify (mkWorld [] [(''/www/404.json'', ''{}'')] refreshEndpoints)
      (mkRequest [(''X-Service-Name'', ''refresh''), (''X-Original-URI'', ''/other''),
                  (''X-Format'', ''application/json'')])) =
     (''application/json'', ''.json'', 404) \<and>
   snd (resolve ''/www'' (mkWorld [] [(''/www/404.json'', ''{}'')] refreshEndpoints)
      (mkRequest [(''X-Service-Name'', ''refresh''), (''X-Original-URI'', ''/other''),
                  (''X-Format'', ''application/json'')])
      (fst (classify (mkWorld [] [(''/www/404.json'', ''{}'')] refreshEndpoints)
        (mkRequest [(''X-Service-Name'', ''refresh''), (''X-Original-URI'', ''/other''),
                    (''X-Format'', ''application/json'')])))
      ''.json'' 404) = (''/www/404.json'', None, 0) \<and>
   Open (mkWorld [] [(''/www/404.json'', ''{}'')] refreshEndpoints) ''/www/404.json'' = Inr ''{}'' \<and>
   summary (errorHandler ''/www'' (mkWorld [] [(''/www/404.json'', ''{}'')] refreshEndpoints)
      (mkRequest [(''X-Service-Name'', ''refresh''), (''X-Original-URI'', ''/other''),
                  (''X-Format'', ''application/json'')])) =
     Inl (InvalidWriteHeaderCode 0)"
  by code_simp

end
